theory Spec2Isabelle
  imports Main "HOL-Library.AList"
begin

section \<open>The fine-tuning driver \<open>tclx/train/finetune_base.py\<close>\<close>

text \<open>
  The script is glue over external libraries (transformers, datasets, torch, wandb).
  The embedding keeps the script's own control flow and data handling and makes the
  libraries explicit:
  \<^item> every raise is a value of \<open>error\<close>;
  \<^item> every call into a library that acts on the outside world is an \<open>event\<close>; a run
    of a function is its result together with the list of events of the calls that
    returned, in program order;
  \<^item> what the outside world answers (the loaded dataset, the distributed rank, the
    tokenizer, the sampled generations, which library calls raise) is a record \<open>env\<close>.
\<close>

subsection \<open>Values, errors, events\<close>

text \<open>
  A value loaded from the YAML configuration. A float is kept as its lexeme; a mapping
  is an association list in insertion order, as a Python dict is.
\<close>

datatype yaml =
    YNone
  | YBool bool
  | YInt int
  | YFloat string
  | YStr string
  | YList "yaml list"
  | YDict "(string \<times> yaml) list"

type_synonym config = "(string \<times> yaml) list"

text \<open>
  \<open>ValueError v\<close> is the error of line 78, raised with the message
  \<open>"{} is unsupported train type!".format(v)\<close>. \<open>LibraryError\<close> stands for any exception
  raised inside a library call, whatever its Python class; the script catches none.
\<close>

datatype error =
    KeyError string
  | TypeError
  | ValueError yaml
  | IndexError
  | OverflowError
  | ZeroDivisionError
  | LibraryError

text \<open>The two dataset adapters of \<open>tclx.data.datasets\<close>.\<close>

datatype adapter = SFTDataset | MaskedSFTDataset

text \<open>
  The library calls of the script, with the arguments the script passes. \<open>'a\<close> is the
  type of a dataset row.
\<close>

datatype 'a event =
    TokenizerFromPretrained yaml
  | TrainingArgumentsNew config
  | ModelFromPretrained yaml
  | ModelCuda
  | LoadDataset yaml
  | WandbInit string config
  | Print nat
  | DatasetNew adapter "'a list"
  | TrainerNew config adapter "'a list" "'a list"
  | TrainerTrain
  | SavePretrained yaml
  | Generate nat "int list list" nat
  | WandbLog "string list" "string list list"

record 'a env =
  raises :: "'a event \<Rightarrow> bool"
  get_rank :: "int option"
  load_yaml :: "string option \<Rightarrow> config option"
  train_split :: "'a list"
  tok :: "string \<Rightarrow> int list"
  pad_token :: string
  generate :: "nat \<Rightarrow> int list list \<Rightarrow> int list list"
  decode :: "int list \<Rightarrow> string"

text \<open>
  \<^item> \<open>raises env ev\<close>: the library call \<open>ev\<close> raises instead of returning;
  \<^item> \<open>get_rank env\<close>: what \<open>torch.distributed.get_rank()\<close> gives, \<open>None\<close> when it
    raises (no process group is initialised);
  \<^item> \<open>load_yaml env path\<close>: the mapping \<open>tclx.utils.utils.load_yaml\<close> reads, \<open>None\<close>
    when it raises;
  \<^item> \<open>train_split env\<close>: the rows of \<open>load_dataset(...)["train"]\<close>;
  \<^item> \<open>tok env s\<close>: the token ids of \<open>s\<close>; \<open>pad_token env\<close>: \<open>tok.pad_token\<close>;
  \<^item> \<open>generate env i batch\<close>: the rows sampled by the \<open>i\<close>-th \<open>model.generate\<close> call
    (sampling is random, so the answer may depend on the call);
  \<^item> \<open>decode env row\<close>: the string \<open>tok.batch_decode\<close> gives for one row.
\<close>

subsection \<open>Runs: a result and the events so far\<close>

type_synonym ('a, 'b) run = "(error + 'b) \<times> 'a event list"

definition return :: "'b \<Rightarrow> ('a, 'b) run" where
  "return x = (Inr x, [])"

definition raise :: "error \<Rightarrow> ('a, 'b) run" where
  "raise e = (Inl e, [])"

definition lift :: "error + 'b \<Rightarrow> ('a, 'b) run" where
  "lift r = (r, [])"

text \<open>Sequencing: an error ends the run, and the events of both parts are kept in order.\<close>

definition and_then :: "('a, 'b) run \<Rightarrow> ('b \<Rightarrow> ('a, 'c) run) \<Rightarrow> ('a, 'c) run" where
  "and_then m f =
     (case m of
        (Inl e, events) \<Rightarrow> (Inl e, events)
      | (Inr x, events) \<Rightarrow> (case f x of (r, more_events) \<Rightarrow> (r, events @ more_events)))"

definition call :: "'a env \<Rightarrow> 'a event \<Rightarrow> ('a, unit) run" where
  "call env ev = (if raises env ev then (Inl LibraryError, []) else (Inr (), [ev]))"

text \<open>The answer of a library function that may raise.\<close>

definition library :: "'b option \<Rightarrow> error + 'b" where
  "library answer = (case answer of None \<Rightarrow> Inl LibraryError | Some x \<Rightarrow> Inr x)"

subsection \<open>Dictionaries\<close>

definition getitem :: "config \<Rightarrow> string \<Rightarrow> error + yaml" where
  "getitem d k = (case map_of d k of None \<Rightarrow> Inl (KeyError k) | Some v \<Rightarrow> Inr v)"

text \<open>
  Subscripting with a string key, or unpacking with \<open>**\<close>, needs a mapping: on any
  other YAML value Python raises TypeError.
\<close>

definition as_dict :: "yaml \<Rightarrow> error + config" where
  "as_dict v = (case v of YDict d \<Rightarrow> Inr d | _ \<Rightarrow> Inl TypeError)"

definition setitem :: "config \<Rightarrow> string \<Rightarrow> yaml \<Rightarrow> config" where
  "setitem d k v = AList.update k v d"

definition of_optional :: "string option \<Rightarrow> yaml" where
  "of_optional a = (case a of None \<Rightarrow> YNone | Some s \<Rightarrow> YStr s)"

subsection \<open>\<open>int(len(data) * 0.02)\<close> in binary64\<close>

text \<open>
  Python evaluates \<open>len(data) * 0.02\<close> in IEEE-754 binary64: the length is converted to
  the nearest double (ties to even; OverflowError from \<open>2 ^ 1024\<close> on), multiplied by
  the double nearest to \<open>0.02\<close>, which is \<open>5764607523034235 / 2 ^ 58\<close>, the product is
  rounded again, and \<open>int\<close> truncates. All values are non-negative and far from the
  subnormal range, so a double is represented by a natural number in a fixed power-of-two
  unit and rounding is rounding to 53 significant bits.
\<close>

fun bit_length :: "nat \<Rightarrow> nat" where
  "bit_length n = (if n = 0 then 0 else Suc (bit_length (n div 2)))"

declare bit_length.simps [simp del]

definition round53 :: "nat \<Rightarrow> nat" where
  "round53 x =
     (let b = bit_length x in
      if b \<le> 53 then x
      else
        let s = b - 53; q = x div 2 ^ s; r = x mod 2 ^ s; h = 2 ^ (s - 1)
        in (if h < r \<or> (r = h \<and> odd q) then q + 1 else q) * 2 ^ s)"

definition float_of_len :: "nat \<Rightarrow> error + nat" where
  "float_of_len n = (if round53 n < 2 ^ 1024 then Inr (round53 n) else Inl OverflowError)"

text \<open>The double \<open>0.02\<close>, in units of \<open>2 ^ - 58\<close>.\<close>

definition two_percent :: nat where
  "two_percent = 5764607523034235"

definition eval_size :: "nat \<Rightarrow> error + nat" where
  "eval_size n =
     (case float_of_len n of
        Inl e \<Rightarrow> Inl e
      | Inr x \<Rightarrow> Inr (round53 (x * two_percent) div 2 ^ 58))"

subsection \<open>The dataset split (lines 62 to 64 of \<open>train\<close>)\<close>

text \<open>\<open>Dataset.select\<close>: the rows at the given indices, IndexError on an index out of range.\<close>

definition select :: "'a list \<Rightarrow> nat list \<Rightarrow> error + 'a list" where
  "select data indices =
     (if list_all (\<lambda>i. i < length data) indices
      then Inr (map (\<lambda>i. data ! i) indices)
      else Inl IndexError)"

definition eval_indices :: "nat \<Rightarrow> nat list" where
  "eval_indices es = [i. i \<leftarrow> [0..<es]]"

text \<open>
  \<open>range(len(data) - eval_size)\<close> is empty when the difference is negative, which is what
  the truncating subtraction of \<open>nat\<close> gives.
\<close>

definition train_indices :: "nat \<Rightarrow> nat \<Rightarrow> nat list" where
  "train_indices n es = [es + i. i \<leftarrow> [0..<n - es]]"

text \<open>The pair (eval rows, train rows).\<close>

definition split_dataset :: "'a list \<Rightarrow> error + 'a list \<times> 'a list" where
  "split_dataset data =
     (case eval_size (length data) of
        Inl e \<Rightarrow> Inl e
      | Inr es \<Rightarrow>
          (case select data (eval_indices es) of
             Inl e \<Rightarrow> Inl e
           | Inr eval_data \<Rightarrow>
               (case select data (train_indices (length data) es) of
                  Inl e \<Rightarrow> Inl e
                | Inr train_data \<Rightarrow> Inr (eval_data, train_data))))"

text \<open>The largest length a Python sequence can have (\<open>sys.maxsize\<close> of a 64-bit build).\<close>

definition sys_maxsize :: nat where
  "sys_maxsize = 2 ^ 63 - 1"

text \<open>The sizes of the two parts, for statements about sizes alone.\<close>

definition split_sizes :: "'a list \<Rightarrow> error + nat \<times> nat" where
  "split_sizes data =
     (case split_dataset data of
        Inl e \<Rightarrow> Inl e
      | Inr (eval_data, train_data) \<Rightarrow> Inr (length eval_data, length train_data))"

subsection \<open>\<open>call_model\<close> (lines 14 to 34)\<close>

text \<open>A Python slice \<open>xs[a:b]\<close>: negative bounds count from the end, all bounds are clipped.\<close>

definition slice_index :: "nat \<Rightarrow> int \<Rightarrow> nat" where
  "slice_index n i = (if i < 0 then nat (max 0 (int n + i)) else min (nat i) n)"

definition py_slice :: "'b list \<Rightarrow> int \<Rightarrow> int \<Rightarrow> 'b list" where
  "py_slice xs a b =
     (let lo = slice_index (length xs) a; hi = slice_index (length xs) b
      in take (hi - lo) (drop lo xs))"

text \<open>
  Lines 20 to 23. \<open>//\<close> is floor division, as \<open>div\<close> on \<open>int\<close> is, and raises on a zero
  divisor; \<open>range\<close> of a negative number is empty.
\<close>

definition prompt_batches :: "'b list \<Rightarrow> int \<Rightarrow> error + 'b list list" where
  "prompt_batches prompts batch_size =
     (if batch_size = 0 then Inl ZeroDivisionError
      else
        let num_batches = (int (length prompts) + batch_size - 1) div batch_size
        in Inr [py_slice prompts (int i * batch_size) ((int i + 1) * batch_size).
                  i \<leftarrow> [0..<nat num_batches]])"

text \<open>\<open>torch.flip\<close> of a one-dimensional tensor along its only dimension.\<close>

definition flip :: "int list \<Rightarrow> int list" where
  "flip t = rev t"

definition max_len :: "int list list \<Rightarrow> nat" where
  "max_len sequences = foldr (\<lambda>s m. max (length s) m) sequences 0"

text \<open>
  \<open>pad_sequence\<close> takes its \<open>padding_value\<close> as a C double and fills a tensor of the
  sequences' type, 64-bit integers here, with it. So the Python int it is given is
  converted to the nearest double (ties to even) and that double to a 64-bit integer: an
  id beyond \<open>2 ^ 53\<close> in magnitude is rounded, and a value the tensor cannot hold is
  refused. (At exactly \<open>2 ^ 63\<close> the library's range check passes and the conversion is
  undefined in C++; the model refuses that value too.)
\<close>

definition stored_padding :: "int \<Rightarrow> error + int" where
  "stored_padding padding_value =
     (let d = sgn padding_value * int (round53 (nat \<bar>padding_value\<bar>))
      in if - (2 ^ 63) \<le> d \<and> d < 2 ^ 63 then Inr d else Inl LibraryError)"

text \<open>
  \<open>torch.nn.utils.rnn.pad_sequence\<close> with \<open>batch_first=True\<close>: every sequence is filled
  at its end with the stored padding value up to the longest length. It raises on an
  empty list.
\<close>

definition pad_sequence :: "int list list \<Rightarrow> int \<Rightarrow> error + int list list" where
  "pad_sequence sequences padding_value =
     (if sequences = [] then Inl LibraryError
      else
        case stored_padding padding_value of
          Inl e \<Rightarrow> Inl e
        | Inr p \<Rightarrow> Inr [s @ replicate (max_len sequences - length s) p. s \<leftarrow> sequences])"

text \<open>\<open>ids[0]\<close> of a Python list.\<close>

definition first_id :: "int list \<Rightarrow> error + int" where
  "first_id ids = (case ids of [] \<Rightarrow> Inl IndexError | x # _ \<Rightarrow> Inr x)"

text \<open>
  Lines 25 to 29: flip every prompt, pad, flip every row of the padded batch
  (\<open>torch.flip\<close> along dimension 1). The padding value is evaluated before
  \<open>pad_sequence\<close> is called.
\<close>

definition left_pad :: "'a env \<Rightarrow> int list list \<Rightarrow> error + int list list" where
  "left_pad env batch =
     (let flipped = [flip prompt. prompt \<leftarrow> batch] in
      case first_id (tok env (pad_token env)) of
        Inl e \<Rightarrow> Inl e
      | Inr padding_value \<Rightarrow>
          (case pad_sequence flipped padding_value of
             Inl e \<Rightarrow> Inl e
           | Inr padded \<Rightarrow> Inr [flip row. row \<leftarrow> padded]))"

text \<open>
  The loop of lines 24 to 33, \<open>i\<close> counting the batches and \<open>answers\<close> the list built so
  far. Moving the batch to the GPU is part of the \<open>Generate\<close> call.
\<close>

fun call_model_loop ::
  "'a env \<Rightarrow> nat \<Rightarrow> nat \<Rightarrow> string list \<Rightarrow> int list list list \<Rightarrow> ('a, string list) run" where
  "call_model_loop env max_length i answers [] = return answers"
| "call_model_loop env max_length i answers (batch # rest) =
     and_then (lift (left_pad env batch)) (\<lambda>padded.
     and_then (call env (Generate i padded max_length)) (\<lambda>_.
     let output = [decode env row. row \<leftarrow> generate env i padded]
     in call_model_loop env max_length (Suc i) (answers @ output) rest))"

definition call_model :: "'a env \<Rightarrow> string list \<Rightarrow> int \<Rightarrow> nat \<Rightarrow> ('a, string list) run" where
  "call_model env prompts batch_size max_length =
     (let tokenized = [tok env prompt. prompt \<leftarrow> prompts] in
      and_then (lift (prompt_batches tokenized batch_size)) (\<lambda>batches.
      call_model_loop env max_length 0 [] batches))"

subsection \<open>\<open>SampleCallback.on_evaluate\<close> (lines 38 to 49)\<close>

text \<open>
  The argument is \<open>eval_dataloader.dataset.prompts\<close>. Building the \<open>wandb.Table\<close> and
  logging it are one event, with the table's columns and rows.
\<close>

definition on_evaluate :: "'a env \<Rightarrow> string list \<Rightarrow> ('a, unit) run" where
  "on_evaluate env dataset_prompts =
     (let prompts = take 16 dataset_prompts in
      and_then (call_model env prompts 16 500) (\<lambda>responses.
      and_then (lift (library (get_rank env))) (\<lambda>rank.
      if rank = 0
      then call env (WandbLog [''prompts'', ''responses'']
                       [[prompt, response]. (prompt, response) \<leftarrow> zip prompts responses])
      else return ())))"

subsection \<open>The data collator (lines 86 to 90)\<close>

text \<open>An example is the triple (input ids, attention mask, labels) of one-dimensional tensors.\<close>

type_synonym example = "int list \<times> int list \<times> int list"

text \<open>
  \<open>torch.stack\<close> of one-dimensional tensors: a two-dimensional tensor with the given
  rows. It raises on an empty list and on tensors of different sizes.
\<close>

definition stack :: "int list list \<Rightarrow> error + int list list" where
  "stack tensors =
     (case tensors of
        [] \<Rightarrow> Inl LibraryError
      | t # ts \<Rightarrow>
          if list_all (\<lambda>u. length u = length t) ts then Inr tensors else Inl LibraryError)"

definition data_collator :: "example list \<Rightarrow> error + (string \<times> int list list) list" where
  "data_collator data =
     (case stack [fst f. f \<leftarrow> data] of
        Inl e \<Rightarrow> Inl e
      | Inr input_ids \<Rightarrow>
          (case stack [fst (snd f). f \<leftarrow> data] of
             Inl e \<Rightarrow> Inl e
           | Inr attention_mask \<Rightarrow>
               (case stack [snd (snd f). f \<leftarrow> data] of
                  Inl e \<Rightarrow> Inl e
                | Inr labels \<Rightarrow>
                    Inr [(''input_ids'', input_ids),
                         (''attention_mask'', attention_mask),
                         (''labels'', labels)])))"

subsection \<open>\<open>train\<close> (lines 52 to 93)\<close>

text \<open>What lines 53 to 69 leave behind for the rest of \<open>train\<close>.\<close>

record 'a loaded =
  st_config :: config
  st_training_args :: config
  st_eval_data :: "'a list"
  st_data :: "'a list"

text \<open>
  Lines 53 to 69: the configuration is updated in place, tokenizer, training arguments
  and model are built, the dataset is loaded and split, and rank 0 starts the wandb run.
  Setting \<open>tokenizer.pad_token\<close> and \<open>model.tok\<close> are attribute assignments without an
  effect outside the process.
\<close>

definition train_load :: "'a env \<Rightarrow> config \<Rightarrow> ('a, 'a loaded) run" where
  "train_load env config0 =
     (let config = setitem (setitem config0 ''eval_accumulation_steps'' (YInt 2))
                     ''fp16_full_eval'' (YBool True) in
      and_then (lift (getitem config ''tokenizer_path'')) (\<lambda>tokenizer_path.
      and_then (call env (TokenizerFromPretrained tokenizer_path)) (\<lambda>_.
      and_then (lift (getitem config ''train_args'')) (\<lambda>train_args.
      and_then (lift (as_dict train_args)) (\<lambda>kwargs.
      and_then (call env (TrainingArgumentsNew kwargs)) (\<lambda>_.
      and_then (lift (getitem config ''model_path'')) (\<lambda>model_path.
      and_then (call env (ModelFromPretrained model_path)) (\<lambda>_.
      and_then (call env ModelCuda) (\<lambda>_.
      and_then (lift (getitem config ''data_path'')) (\<lambda>data_path.
      and_then (call env (LoadDataset data_path)) (\<lambda>_.
      and_then (lift (split_dataset (train_split env))) (\<lambda>(eval_rows, train_rows).
      and_then (lift (library (get_rank env))) (\<lambda>rank.
      and_then (if rank = 0 then call env (WandbInit ''tclx'' config) else return ()) (\<lambda>_.
      and_then (call env (Print (length train_rows))) (\<lambda>_.
      return \<lparr>st_config = config, st_training_args = kwargs,
               st_eval_data = eval_rows, st_data = train_rows\<rparr>)))))))))))))))"

text \<open>
  Lines 71 to 93. \<open>config["trainer"]\<close> is read up to three times from a dictionary that
  does not change in between, so it is read once here. The value of the first step is the
  adapter both datasets were built with.
\<close>

definition train_fit :: "'a env \<Rightarrow> 'a loaded \<Rightarrow> ('a, unit) run" where
  "train_fit env st =
     and_then (lift (getitem (st_config st) ''trainer'')) (\<lambda>trainer.
     and_then
       (if trainer = YStr ''unmasked'' then
          and_then (call env (DatasetNew SFTDataset (st_data st))) (\<lambda>_.
          and_then (call env (DatasetNew SFTDataset (st_eval_data st))) (\<lambda>_.
          return SFTDataset))
        else if trainer = YStr ''masked'' then
          and_then (call env (DatasetNew MaskedSFTDataset (st_data st))) (\<lambda>_.
          and_then (call env (DatasetNew MaskedSFTDataset (st_eval_data st))) (\<lambda>_.
          return MaskedSFTDataset))
        else raise (ValueError trainer)) (\<lambda>kind.
     and_then (call env (TrainerNew (st_training_args st) kind (st_data st) (st_eval_data st))) (\<lambda>_.
     and_then (call env TrainerTrain) (\<lambda>_.
     and_then (lift (getitem (st_config st) ''train_args'')) (\<lambda>train_args.
     and_then (lift (as_dict train_args)) (\<lambda>d.
     and_then (lift (getitem d ''output_dir'')) (\<lambda>output_dir.
     call env (SavePretrained output_dir))))))))"

definition train :: "'a env \<Rightarrow> config \<Rightarrow> ('a, unit) run" where
  "train env config = and_then (train_load env config) (train_fit env)"

subsection \<open>The script (lines 96 to 107)\<close>

record args =
  config_path :: "string option"
  ds_config_path :: "string option"
  deepspeed :: "string option"
  local_rank :: "int option"

definition main :: "'a env \<Rightarrow> args \<Rightarrow> ('a, unit) run" where
  "main env args =
     and_then (lift (library (load_yaml env (config_path args)))) (\<lambda>config.
     and_then (lift (getitem config ''train_args'')) (\<lambda>train_args.
     and_then (lift (as_dict train_args)) (\<lambda>d.
     train env
       (setitem config ''train_args''
          (YDict (setitem d ''deepspeed'' (of_optional (ds_config_path args))))))))"

subsection \<open>Notions used in the statements\<close>

text \<open>The experiment-tracking calls.\<close>

fun is_wandb :: "'a event \<Rightarrow> bool" where
  "is_wandb (WandbInit project c) = True"
| "is_wandb (WandbLog columns rows) = True"
| "is_wandb _ = False"

text \<open>
  A left-padded batch, as a specification: every row is its prompt, preceded by copies
  of the padding up to the length of the longest prompt.
\<close>

definition left_padded :: "int \<Rightarrow> int list list \<Rightarrow> int list list" where
  "left_padded padding batch =
     [replicate (max_len batch - length prompt) padding @ prompt. prompt \<leftarrow> batch]"

text \<open>The decoded rows the \<open>i\<close>-th \<open>generate\<close> call gives for a batch.\<close>

definition batch_output :: "'a env \<Rightarrow> int \<Rightarrow> nat \<Rightarrow> int list list \<Rightarrow> string list" where
  "batch_output env padding i batch =
     [decode env row. row \<leftarrow> generate env i (left_padded padding batch)]"

text \<open>
  \<open>train\<close> selects the adapter \<open>kind\<close>: it does not raise the error of line 78, every
  dataset it builds is built with \<open>kind\<close>, a trainer it constructs gets datasets built
  with \<open>kind\<close>, and when lines 53 to 69 complete and the adapter's constructor does not
  raise, the training dataset is built with \<open>kind\<close>.
\<close>

definition selects :: "'a env \<Rightarrow> config \<Rightarrow> adapter \<Rightarrow> bool" where
  "selects env config kind \<longleftrightarrow>
     (\<forall>w. fst (train env config) \<noteq> Inl (ValueError w))
   \<and> (\<forall>k rows. DatasetNew k rows \<in> set (snd (train env config)) \<longrightarrow> k = kind)
   \<and> (\<forall>a k rows rows'. TrainerNew a k rows rows' \<in> set (snd (train env config)) \<longrightarrow>
          k = kind
        \<and> DatasetNew kind rows \<in> set (snd (train env config))
        \<and> DatasetNew kind rows' \<in> set (snd (train env config)))
   \<and> (\<forall>st events. train_load env config = (Inr st, events)
          \<and> \<not> raises env (DatasetNew kind (st_data st)) \<longrightarrow>
          DatasetNew kind (st_data st) \<in> set (snd (train env config)))"

text \<open>Lines 80 to 93, after the adapter has been chosen.\<close>

definition fit_with :: "'a env \<Rightarrow> 'a loaded \<Rightarrow> adapter \<Rightarrow> ('a, unit) run" where
  "fit_with env st kind =
     and_then (call env (DatasetNew kind (st_data st))) (\<lambda>_.
     and_then (call env (DatasetNew kind (st_eval_data st))) (\<lambda>_.
     and_then (call env (TrainerNew (st_training_args st) kind (st_data st) (st_eval_data st))) (\<lambda>_.
     and_then (call env TrainerTrain) (\<lambda>_.
     and_then (lift (getitem (st_config st) ''train_args'')) (\<lambda>train_args.
     and_then (lift (as_dict train_args)) (\<lambda>d.
     and_then (lift (getitem d ''output_dir'')) (\<lambda>output_dir.
     call env (SavePretrained output_dir))))))))"

subsection \<open>A concrete configuration and environment\<close>

definition demo_config :: config where
  "demo_config =
     [(''tokenizer_path'', YStr ''gpt2''),
      (''model_path'', YStr ''gpt2''),
      (''data_path'', YStr ''data.json''),
      (''trainer'', YStr ''unmasked''),
      (''train_args'', YDict [(''output_dir'', YStr ''out'')])]"

text \<open>
  Three rows, no failing library call, rank 0; the tokenizer maps a character to its
  code, generation appends the token 33 to every row of the batch.
\<close>

definition demo_env :: "string env" where
  "demo_env =
     \<lparr>raises = (\<lambda>ev. False),
      get_rank = Some 0,
      load_yaml = (\<lambda>path. Some demo_config),
      train_split = [''row0'', ''row1'', ''row2''],
      tok = map of_char,
      pad_token = ''#'',
      generate = (\<lambda>i batch. [row @ [33]. row \<leftarrow> batch]),
      decode = map char_of\<rparr>"


definition demo_args :: args where
  "demo_args =
     \<lparr>config_path = Some ''config.yaml'', ds_config_path = Some ''ds_config.json'',
      deepspeed = None, local_rank = None\<rparr>"

section \<open>The 2% split\<close>

subsection \<open>Rounding to 53 bits\<close>

lemma bit_length_0: "bit_length 0 = 0"
  by (simp add: bit_length.simps)

lemma bit_length_less: "n < 2 ^ bit_length n"
proof (induction n rule: bit_length.induct)
  case (1 n)
  show ?case
  proof (cases "n = 0")
    case True
    then show ?thesis by (simp add: bit_length.simps)
  next
    case False
    then have "n div 2 < 2 ^ bit_length (n div 2)" using 1 by simp
    then have "n < 2 * 2 ^ bit_length (n div 2)" by linarith
    then show ?thesis using False by (subst bit_length.simps) simp
  qed
qed

lemma bit_length_ge: "n \<noteq> 0 \<Longrightarrow> 2 ^ (bit_length n - 1) \<le> n"
proof (induction n rule: bit_length.induct)
  case (1 n)
  show ?case
  proof (cases "n div 2 = 0")
    case True
    then have "bit_length n = 1" using "1.prems"
      by (simp add: bit_length.simps [of n] bit_length.simps [of 0])
    then show ?thesis using "1.prems" by simp
  next
    case False
    then have ih: "2 ^ (bit_length (n div 2) - 1) \<le> n div 2" using 1 by simp
    have pos: "bit_length (n div 2) \<noteq> 0" using False by (subst bit_length.simps) simp
    have "bit_length n = Suc (bit_length (n div 2))"
      using "1.prems" by (subst bit_length.simps) simp
    then have "(2::nat) ^ (bit_length n - 1) = 2 * 2 ^ (bit_length (n div 2) - 1)"
      using pos by (cases "bit_length (n div 2)") simp_all
    then show ?thesis using ih by linarith
  qed
qed

lemma bit_length_le: "n < 2 ^ k \<Longrightarrow> bit_length n \<le> k"
proof (rule ccontr)
  assume lt: "n < 2 ^ k" and "\<not> bit_length n \<le> k"
  then have k: "k \<le> bit_length n - 1" by simp
  have "n \<noteq> 0" using \<open>\<not> bit_length n \<le> k\<close> by (cases "n = 0") (simp_all add: bit_length_0)
  then have "2 ^ (bit_length n - 1) \<le> n" by (rule bit_length_ge)
  moreover have "(2::nat) ^ k \<le> 2 ^ (bit_length n - 1)" using k by (rule power_increasing) simp
  ultimately show False using lt by linarith
qed

lemma round53_exact: "n < 2 ^ 53 \<Longrightarrow> round53 n = n"
  using bit_length_le [of n 53] by (simp add: round53_def)

lemma round53_le_double: "round53 x \<le> 2 * x"
proof (cases "bit_length x \<le> 53")
  case True
  then show ?thesis by (simp add: round53_def)
next
  case False
  define s where "s = bit_length x - 53"
  define q where "q = x div 2 ^ s"
  have x0: "x \<noteq> 0" using False by (cases "x = 0") (simp_all add: bit_length_0)
  have "(2::nat) ^ s \<le> 2 ^ (bit_length x - 1)" unfolding s_def by (rule power_increasing) simp_all
  also have "\<dots> \<le> x" using x0 by (rule bit_length_ge)
  finally have "1 \<le> q" unfolding q_def by (simp add: Suc_le_eq div_greater_zero_iff)
  then have "(q + 1) * 2 ^ s \<le> 2 * (q * 2 ^ s)" by (simp add: algebra_simps)
  moreover have "q * 2 ^ s \<le> x" unfolding q_def by simp
  ultimately have up: "(q + 1) * 2 ^ s \<le> 2 * x" by linarith
  have "q * 2 ^ s \<le> 2 * x" using \<open>q * 2 ^ s \<le> x\<close> by linarith
  with up show ?thesis using False
    by (simp add: round53_def Let_def s_def [symmetric] q_def [symmetric])
qed

text \<open>Rounding at a given shift stays inside a bracket of multiples of the unit.\<close>

lemma round53_lower:
  assumes "53 < bit_length x" and "a * 2 ^ (bit_length x - 53) \<le> x"
  shows "a * 2 ^ (bit_length x - 53) \<le> round53 x"
proof -
  define s where "s = bit_length x - 53"
  have "a \<le> x div 2 ^ s" using assms(2) unfolding s_def
    by (simp add: less_eq_div_iff_mult_less_eq)
  then have "a * 2 ^ s \<le> (x div 2 ^ s) * 2 ^ s" by simp
  moreover have "(x div 2 ^ s) * 2 ^ s \<le> (x div 2 ^ s + 1) * 2 ^ s" by simp
  ultimately show ?thesis using assms(1)
    by (auto simp add: round53_def Let_def s_def [symmetric] simp del: mult_Suc)
qed

lemma round53_upper:
  assumes "53 < bit_length x" and "x + 2 ^ (bit_length x - 54) < b * 2 ^ (bit_length x - 53)"
  shows "round53 x < b * 2 ^ (bit_length x - 53)"
proof -
  define s where "s = bit_length x - 53"
  define q where "q = x div 2 ^ s"
  define r where "r = x mod 2 ^ s"
  have s1: "s - 1 = bit_length x - 54" "0 < s" using assms(1) by (simp_all add: s_def)
  have x: "x = q * 2 ^ s + r" using div_mult_mod_eq [of x "2 ^ s"] by (simp add: q_def r_def)
  have two: "(2::nat) ^ s = 2 * 2 ^ (s - 1)" using s1(2) by (cases s) simp_all
  have hyp: "x + 2 ^ (s - 1) < b * 2 ^ s" using assms(2) s1 by (simp add: s_def)
  have down: "q * 2 ^ s < b * 2 ^ s" using hyp x by linarith
  have up: "(q + 1) * 2 ^ s < b * 2 ^ s" if "2 ^ (s - 1) \<le> r"
  proof -
    have "(q + 1) * 2 ^ s = q * 2 ^ s + 2 ^ s" by (simp add: algebra_simps)
    also have "\<dots> \<le> x + 2 ^ (s - 1)" using that x two by linarith
    finally show ?thesis using hyp by linarith
  qed
  show ?thesis using assms(1) down up
    by (auto simp add: round53_def Let_def s_def [symmetric] q_def [symmetric] r_def [symmetric]
        simp del: mult_Suc)
qed

lemma scaled_product_small:
  assumes n: "n < 2 ^ 53"
  shows "round53 (n * two_percent) div 2 ^ 58 = n div 50"
proof -
  define p where "p = n * two_percent"
  define q where "q = n div 50"
  have p: "p = n * 5764607523034235" by (simp add: p_def two_percent_def)
  have q1: "50 * q \<le> n" and q2: "n < 50 * q + 50" by (simp_all add: q_def)
  have n': "n < 9007199254740992" using n by simp
  show ?thesis
  proof (cases "bit_length p \<le> 53")
    case True
    have "p < 2 ^ bit_length p" by (rule bit_length_less)
    also have "(2::nat) ^ bit_length p \<le> 2 ^ 53" using True by (rule power_increasing) simp
    finally have "p < 9007199254740992" by simp
    then have "n < 2" using p by linarith
    then have "q = 0" and "p div 2 ^ 58 = 0" using p by (simp_all add: q_def)
    then show ?thesis using True
      by (simp add: round53_def p_def [symmetric] q_def [symmetric])
  next
    case False
    define s where "s = bit_length p - 53"
    define t :: nat where "t = 2 ^ (bit_length p - 54)"
    have big: "53 < bit_length p" using False by simp
    have "p < 2 ^ 106" using p n' by simp
    then have "bit_length p \<le> 106" by (rule bit_length_le)
    then have s: "s \<le> 53" by (simp add: s_def)
    have "t \<le> 2 ^ 52" unfolding t_def using \<open>bit_length p \<le> 106\<close>
      by (intro power_increasing) simp_all
    then have t: "t \<le> 4503599627370496" by simp
    have unit: "(2::nat) ^ 58 = 2 ^ (58 - s) * 2 ^ s"
      using s by (simp flip: power_add)
    have lo: "q * 2 ^ 58 \<le> p" using p q1 by simp
    have hi: "p + t < (q + 1) * 2 ^ 58" using p q2 n' t by simp
    have "q * 2 ^ (58 - s) * 2 ^ s \<le> round53 p"
      unfolding s_def using big
    proof (rule round53_lower)
      show "q * 2 ^ (58 - (bit_length p - 53)) * 2 ^ (bit_length p - 53) \<le> p"
        using lo unit by (simp add: s_def mult.assoc)
    qed
    then have lo': "q * 2 ^ 58 \<le> round53 p" using unit by (simp add: mult.assoc)
    have "round53 p < (q + 1) * 2 ^ (58 - s) * 2 ^ s"
      unfolding s_def using big
    proof (rule round53_upper)
      show "p + 2 ^ (bit_length p - 54)
            < (q + 1) * 2 ^ (58 - (bit_length p - 53)) * 2 ^ (bit_length p - 53)"
        using hi unit by (simp add: s_def t_def mult.assoc del: mult_Suc)
    qed
    then have hi': "round53 p < (q + 1) * 2 ^ 58" using unit by (simp add: mult.assoc del: mult_Suc)
    have "round53 p div 2 ^ 58 = q"
      using lo' hi' by (intro div_nat_eqI) (simp_all add: mult.commute)
    then show ?thesis by (simp add: p_def q_def)
  qed
qed

subsection \<open>The evaluation size and the selected rows\<close>

lemma float_of_len_maxsize: "n \<le> sys_maxsize \<Longrightarrow> float_of_len n = Inr (round53 n)"
proof -
  assume "n \<le> sys_maxsize"
  then have "2 * n < 2 ^ 64" by (simp add: sys_maxsize_def)
  also have "(2::nat) ^ 64 \<le> 2 ^ 1024" by (rule power_increasing) simp_all
  finally have "round53 n < 2 ^ 1024" using round53_le_double [of n] by linarith
  then show ?thesis by (simp add: float_of_len_def)
qed

lemma eval_size_le: "eval_size n = Inr es \<Longrightarrow> es \<le> n"
proof -
  assume "eval_size n = Inr es"
  then have es: "es = round53 (round53 n * two_percent) div 2 ^ 58"
    by (auto simp: eval_size_def float_of_len_def split: if_splits)
  have "round53 (round53 n * two_percent) \<le> 2 * (round53 n * two_percent)"
    by (rule round53_le_double)
  also have "\<dots> \<le> 2 * (2 * n * two_percent)"
    using round53_le_double [of n] by simp
  also have "\<dots> \<le> n * 2 ^ 58" by (simp add: two_percent_def)
  finally have "round53 (round53 n * two_percent) div 2 ^ 58 \<le> n * 2 ^ 58 div 2 ^ 58"
    by (rule div_le_mono)
  then show ?thesis using es by simp
qed

lemma eval_size_small: "n < 2 ^ 53 \<Longrightarrow> eval_size n = Inr (n div 50)"
proof -
  assume n: "n < 2 ^ 53"
  have "(2::nat) ^ 53 \<le> 2 ^ 1024" by (rule power_increasing) simp_all
  then have "n < 2 ^ 1024" using n by linarith
  then have "float_of_len n = Inr n" using n by (simp add: float_of_len_def round53_exact)
  then show ?thesis using scaled_product_small [OF n] by (simp add: eval_size_def)
qed

lemma eval_size_at:
  "eval_size 9007199254740992 = Inr 180143985094819"
  "eval_size 9007199254740993 = Inr 180143985094819"
  "eval_size 9007199254740994 = Inr 180143985094819"
  "eval_size 9007199254740995 = Inr 180143985094819"
  "eval_size 9007199254740996 = Inr 180143985094819"
  "eval_size 9007199254740997 = Inr 180143985094819"
  "eval_size 9007199254740998 = Inr 180143985094819"
  "eval_size 9007199254740999 = Inr 180143985094820"
  by (simp_all add: eval_size_def float_of_len_def round53_def bit_length.simps two_percent_def
      Let_def)

lemma eval_size_exact: "n < 9007199254740999 \<Longrightarrow> eval_size n = Inr (n div 50)"
proof (cases "n < 2 ^ 53")
  case True
  then show ?thesis by (rule eval_size_small)
next
  case False
  assume "n < 9007199254740999"
  with False have "n = 9007199254740992 \<or> n = 9007199254740993 \<or> n = 9007199254740994
    \<or> n = 9007199254740995 \<or> n = 9007199254740996 \<or> n = 9007199254740997
    \<or> n = 9007199254740998" by simp linarith
  then show ?thesis using eval_size_at by (elim disjE) simp_all
qed

lemma select_eval: "es \<le> length data \<Longrightarrow> select data (eval_indices es) = Inr (take es data)"
  by (auto simp: select_def eval_indices_def list_all_iff intro!: nth_equalityI)

lemma select_train:
  "es \<le> length data \<Longrightarrow> select data (train_indices (length data) es) = Inr (drop es data)"
  by (auto simp: select_def train_indices_def list_all_iff intro!: nth_equalityI)

lemma split_dataset_eq:
  "eval_size (length data) = Inr es \<Longrightarrow> split_dataset data = Inr (take es data, drop es data)"
  using eval_size_le [of "length data" es]
  by (simp add: split_dataset_def select_eval select_train)

lemma indices_partition: "es \<le> n \<Longrightarrow> eval_indices es @ train_indices n es = [0..<n]"
  by (auto simp: eval_indices_def train_indices_def intro!: nth_equalityI simp: nth_append)

lemma indices_disjoint: "set (eval_indices es) \<inter> set (train_indices n es) = {}"
  by (auto simp: eval_indices_def train_indices_def)

text \<open>
  C1 (as amended). For every dataset of fewer than \<open>9007199254740999 = 2 ^ 53 + 7\<close> rows
  the split succeeds, the evaluation set is the first \<open>N div 50\<close> rows, that is
  \<open>floor (0.02 * N)\<close> of them, and the training set is all the remaining rows, so its size
  is \<open>N - N div 50\<close>.
\<close>

theorem split_two_percent:
  assumes "length data < 9007199254740999"
  shows "split_dataset data =
           Inr (take (length data div 50) data, drop (length data div 50) data)
         \<and> split_sizes data = Inr (length data div 50, length data - length data div 50)"
  using assms by (simp add: split_sizes_def split_dataset_eq eval_size_exact)

theorem split_two_percent_witness:
  "length [0..<100::nat] < 9007199254740999
   \<and> split_sizes [0..<100::nat] = Inr (2, 98)"
proof -
  have small: "length [0..<100::nat] < 9007199254740999" by simp
  from split_two_percent [OF small]
  have "split_sizes [0..<100::nat]
        = Inr (length [0..<100::nat] div 50, length [0..<100::nat] - length [0..<100::nat] div 50)"
    by (rule conjunct2)
  then have "split_sizes [0..<100::nat] = Inr (2, 98)" by simp
  with small show ?thesis by (rule conjI)
qed

text \<open>
  At \<open>N = 2 ^ 53 + 7\<close> the claim as stated fails: the length is not a double and is
  rounded to \<open>2 ^ 53 + 8\<close>, whose product with the double \<open>0.02\<close> rounds to the integer
  \<open>180143985094820\<close>, one more than \<open>floor (0.02 * N) = 180143985094819\<close>.
\<close>

theorem split_two_percent_counterexample:
  "split_sizes (replicate 9007199254740999 ()) = Inr (180143985094820, 8827055269646179)
   \<and> (9007199254740999::nat) div 50 = 180143985094819"
proof -
  have "eval_size (length (replicate 9007199254740999 ())) = Inr 180143985094820"
    by (simp add: eval_size_at)
  then show ?thesis by (simp add: split_sizes_def split_dataset_eq)
qed

text \<open>
  C5. For every dataset (of a length a Python sequence can have) the split succeeds, no
  index is selected into both the evaluation set and the training set, and the two sizes
  add up to the size of the dataset.
\<close>

theorem split_disjoint_sizes_sum:
  assumes "length data \<le> sys_maxsize"
  shows "\<exists>es eval_rows train_rows.
           eval_size (length data) = Inr es
         \<and> select data (eval_indices es) = Inr eval_rows
         \<and> select data (train_indices (length data) es) = Inr train_rows
         \<and> split_dataset data = Inr (eval_rows, train_rows)
         \<and> set (eval_indices es) \<inter> set (train_indices (length data) es) = {}
         \<and> length eval_rows + length train_rows = length data"
proof -
  obtain es where es: "eval_size (length data) = Inr es"
    using assms by (simp add: eval_size_def float_of_len_maxsize)
  then have le: "es \<le> length data" by (rule eval_size_le)
  show ?thesis
    using es le indices_disjoint [of es "length data"]
    by (simp add: split_dataset_eq select_eval select_train)
qed

theorem split_disjoint_sizes_sum_witness:
  "length [0..<100::nat] \<le> sys_maxsize
   \<and> (\<exists>es eval_rows train_rows.
           eval_size (length [0..<100::nat]) = Inr es
         \<and> select [0..<100::nat] (eval_indices es) = Inr eval_rows
         \<and> select [0..<100::nat] (train_indices (length [0..<100::nat]) es) = Inr train_rows
         \<and> split_dataset [0..<100::nat] = Inr (eval_rows, train_rows)
         \<and> set (eval_indices es) \<inter> set (train_indices (length [0..<100::nat]) es) = {}
         \<and> length eval_rows + length train_rows = length [0..<100::nat])"
proof -
  have "length [0..<100::nat] \<le> sys_maxsize" by (simp add: sys_maxsize_def)
  then show ?thesis using split_disjoint_sizes_sum [of "[0..<100::nat]"] by blast
qed

section \<open>Runs\<close>

lemma fst_and_then:
  "fst (and_then m f) = (case fst m of Inl e \<Rightarrow> Inl e | Inr x \<Rightarrow> fst (f x))"
  by (simp add: and_then_def split: sum.splits prod.splits)

lemma snd_and_then:
  "snd (and_then m f) = snd m @ (case fst m of Inl e \<Rightarrow> [] | Inr x \<Rightarrow> snd (f x))"
  by (simp add: and_then_def split: sum.splits prod.splits)

lemma and_then_lift:
  "and_then (lift r) f = (case r of Inl e \<Rightarrow> (Inl e, []) | Inr x \<Rightarrow> f x)"
  by (simp add: and_then_def lift_def split: sum.splits prod.splits)

lemma and_then_call:
  "and_then (call env ev) f =
     (if raises env ev then (Inl LibraryError, [])
      else (case f () of (r, events) \<Rightarrow> (r, ev # events)))"
  by (simp add: and_then_def call_def)

lemma and_then_Inr:
  "and_then (Inr x, events) f = (case f x of (r, more_events) \<Rightarrow> (r, events @ more_events))"
  by (simp add: and_then_def)

lemma and_then_Inl: "and_then (Inl e, events) f = (Inl e, events)"
  by (simp add: and_then_def)

lemma and_then_return: "and_then (return x) f = f x"
  by (simp add: and_then_def return_def)

lemma and_then_raise: "and_then (raise e) f = (Inl e, [])"
  by (simp add: and_then_def raise_def)

lemma events_and_then:
  "ev \<in> set (snd (and_then m f)) \<longleftrightarrow>
     ev \<in> set (snd m) \<or> (\<exists>x. fst m = Inr x \<and> ev \<in> set (snd (f x)))"
  by (auto simp: snd_and_then split: sum.splits)

lemma events_call: "e \<in> set (snd (call env ev)) \<longleftrightarrow> e = ev \<and> \<not> raises env ev"
  by (auto simp: call_def)

lemma events_lift: "set (snd (lift r)) = {}"
  by (simp add: lift_def)

lemma events_return: "set (snd (return x)) = {}"
  by (simp add: return_def)

lemma events_raise: "set (snd (raise e)) = {}"
  by (simp add: raise_def)

lemma fst_lift: "fst (lift r) = r"
  by (simp add: lift_def)

lemma fst_return: "fst (return x) = Inr x"
  by (simp add: return_def)

lemma fst_raise: "fst (raise e) = Inl e"
  by (simp add: raise_def)

lemma fst_call: "fst (call env ev) = (if raises env ev then Inl LibraryError else Inr ())"
  by (simp add: call_def)

lemma library_Inr: "library answer = Inr x \<longleftrightarrow> answer = Some x"
  by (cases answer) (simp_all add: library_def)

lemma library_Inl: "library answer = Inl e \<longleftrightarrow> answer = None \<and> e = LibraryError"
  by (cases answer) (auto simp: library_def)

lemmas run_simps = and_then_lift and_then_call and_then_return and_then_raise
  and_then_Inr and_then_Inl

lemmas events_simps = events_and_then events_call events_lift events_return events_raise
  fst_lift fst_return fst_raise fst_call

section \<open>Batched generation\<close>

subsection \<open>Left padding\<close>

lemma max_len_Nil: "max_len [] = 0"
  by (simp add: max_len_def)

lemma max_len_Cons: "max_len (s # ss) = max (length s) (max_len ss)"
  by (simp add: max_len_def)


lemma max_len_rev: "max_len (map rev batch) = max_len batch"
  by (induction batch) (simp_all add: max_len_Nil max_len_Cons)

lemma round53_two_53: "round53 (2 ^ 53) = 2 ^ 53"
  by (simp add: round53_def bit_length.simps Let_def)

text \<open>An id of magnitude at most \<open>2 ^ 53\<close> is stored exactly.\<close>

lemma stored_padding_exact:
  assumes "\<bar>p\<bar> \<le> 2 ^ 53"
  shows "stored_padding p = Inr p"
proof -
  define n where "n = nat \<bar>p\<bar>"
  have n: "n \<le> 2 ^ 53" using assms by (simp add: n_def nat_le_iff)
  have "round53 n = n"
  proof (cases "n < 2 ^ 53")
    case True
    then show ?thesis by (rule round53_exact)
  next
    case False
    then have "n = 2 ^ 53" using n by simp
    then show ?thesis by (simp only: round53_two_53)
  qed
  then have d: "sgn p * int (round53 (nat \<bar>p\<bar>)) = p"
    by (simp add: n_def [symmetric]) (simp add: n_def mult_sgn_abs)
  have "- (2 ^ 63) \<le> p" "p < 2 ^ 63" using assms by simp_all
  then show ?thesis unfolding stored_padding_def d Let_def by simp
qed

lemma left_pad_eq:
  assumes "batch \<noteq> []" and "tok env (pad_token env) = pad_id # rest"
    and "stored_padding pad_id = Inr padding"
  shows "left_pad env batch = Inr (left_padded padding batch)"
  using assms
  by (simp add: left_pad_def first_id_def pad_sequence_def max_len_rev left_padded_def
      flip_def o_def)

lemma length_left_padded: "length (left_padded padding batch) = length batch"
  by (simp add: left_padded_def)


subsection \<open>Batches and answers\<close>

lemma slice_batch:
  assumes "0 < b"
  shows "py_slice xs (int i * int b) ((int i + 1) * int b) = take b (drop (i * b) xs)"
proof -
  have "int i * int b = int (i * b)" by simp
  then have lo: "slice_index (length xs) (int i * int b) = min (i * b) (length xs)"
    unfolding slice_index_def by (simp del: of_nat_mult of_nat_add)
  have "(int i + 1) * int b = int ((i + 1) * b)" by (simp add: algebra_simps)
  then have hi: "slice_index (length xs) ((int i + 1) * int b) = min ((i + 1) * b) (length xs)"
    unfolding slice_index_def by (simp del: of_nat_mult of_nat_add)
  show ?thesis
  proof (cases "i * b \<le> length xs")
    case True
    then have "min ((i + 1) * b) (length xs) - min (i * b) (length xs)
               = min b (length xs - i * b)" by (auto simp: min_def)
    then show ?thesis using True by (simp add: py_slice_def lo hi Let_def min_def)
  next
    case False
    then show ?thesis by (simp add: py_slice_def lo hi Let_def min_def)
  qed
qed

lemma num_batches_nat:
  assumes "0 < b"
  shows "nat ((int n + int b - 1) div int b) = (n + b - 1) div b"
proof -
  have "int n + int b - 1 = int (n + b - 1)" using assms by simp
  then have "(int n + int b - 1) div int b = int ((n + b - 1) div b)"
    by (simp only: of_nat_div)
  then show ?thesis by (simp only: nat_int)
qed

lemma prompt_batches_pos:
  assumes "0 < b"
  shows "prompt_batches xs (int b)
         = Inr [take b (drop (i * b) xs). i \<leftarrow> [0..<(length xs + b - 1) div b]]"
  using assms by (simp add: prompt_batches_def num_batches_nat slice_batch Let_def)

lemma concat_chunks: "concat [take b (drop (i * b) xs). i \<leftarrow> [0..<k]] = take (k * b) xs"
proof (induction k)
  case 0
  then show ?case by simp
next
  case (Suc k)
  have "take (k * b) xs @ take b (drop (k * b) xs) = take (k * b + b) xs"
    by (simp add: take_add)
  then show ?case using Suc by (simp add: add.commute)
qed

lemma ceil_div_cover: "0 < b \<Longrightarrow> n \<le> ((n + b - 1) div b) * (b::nat)"
proof -
  assume b: "0 < b"
  have "n + b - 1 = ((n + b - 1) div b) * b + (n + b - 1) mod b" by simp
  moreover have "(n + b - 1) mod b < b" using b by simp
  ultimately show ?thesis by linarith
qed

lemma ceil_div_tight: "0 < b \<Longrightarrow> 0 < n \<Longrightarrow> ((n + b - 1) div b - 1) * (b::nat) < n"
proof -
  assume b: "0 < b" and n: "0 < n"
  have "((n + b - 1) div b) * b \<le> n + b - 1" by simp
  moreover have "((n + b - 1) div b - 1) * b = ((n + b - 1) div b) * b - b"
    by (simp add: diff_mult_distrib)
  ultimately show ?thesis using b n by linarith
qed

lemma call_model_loop_run:
  assumes "\<forall>batch \<in> set batches. batch \<noteq> []"
    and "tok env (pad_token env) = pad_id # rest"
    and "stored_padding pad_id = Inr padding"
    and "\<forall>j padded. \<not> raises env (Generate j padded max_length)"
  shows "call_model_loop env max_length i answers batches =
           (Inr (answers @ concat [batch_output env padding (i + j) (batches ! j).
                                     j \<leftarrow> [0..<length batches]]),
            [Generate (i + j) (left_padded padding (batches ! j)) max_length.
               j \<leftarrow> [0..<length batches]])"
  using assms(1)
proof (induction batches arbitrary: i answers)
  case Nil
  then show ?case by (simp add: return_def)
next
  case (Cons batch batches)
  have pad: "left_pad env batch = Inr (left_padded padding batch)"
    using Cons.prems left_pad_eq [OF _ assms(2,3)] by simp
  have ih: "call_model_loop env max_length (Suc i) (answers @ batch_output env padding i batch) batches =
           (Inr ((answers @ batch_output env padding i batch)
                 @ concat [batch_output env padding (Suc i + j) (batches ! j).
                                     j \<leftarrow> [0..<length batches]]),
            [Generate (Suc i + j) (left_padded padding (batches ! j)) max_length.
               j \<leftarrow> [0..<length batches]])"
    using Cons.prems by (intro Cons.IH) simp
  show ?case
    using assms(4)
    by (simp add: pad and_then_lift and_then_call Let_def ih [unfolded batch_output_def]
        batch_output_def map_upt_Suc del: upt_Suc)
qed

lemma chunk_nonempty:
  assumes "0 < b" and "i < (length xs + b - 1) div b"
  shows "take b (drop (i * b) xs) \<noteq> []"
proof -
  have "0 < length xs" using assms by (cases xs) auto
  then have "((length xs + b - 1) div b - 1) * b < length xs"
    using assms(1) by (intro ceil_div_tight)
  moreover have "i * b \<le> ((length xs + b - 1) div b - 1) * b"
    using assms(2) by (intro mult_le_mono1) simp
  ultimately have "i * b < length xs" by linarith
  then show ?thesis using assms(1) by simp
qed

text \<open>For a positive batch size no batch of \<open>call_model\<close> is empty.\<close>

lemma prompt_batches_nonempty:
  assumes "0 < batch_size" and "prompt_batches xs batch_size = Inr batches"
  shows "[] \<notin> set batches"
proof -
  define b where "b = nat batch_size"
  have b: "0 < b" and size: "batch_size = int b" using assms(1) by (simp_all add: b_def)
  have "prompt_batches xs (int b) = Inr batches" using assms(2) unfolding size .
  then have "batches = [take b (drop (i * b) xs). i \<leftarrow> [0..<(length xs + b - 1) div b]]"
    unfolding prompt_batches_pos [OF b] by simp
  then show ?thesis using chunk_nonempty [OF b, of _ xs] by auto
qed

lemma chunk_length:
  assumes "0 < b" and "Suc i < (length xs + b - 1) div b"
  shows "length (take b (drop (i * b) xs)) = b"
proof -
  have "Suc i * b \<le> ((length xs + b - 1) div b - 1) * b"
    using assms(2) by (intro mult_le_mono1) simp
  moreover have "((length xs + b - 1) div b - 1) * b < length xs"
    using assms by (intro ceil_div_tight) (cases xs, auto)
  ultimately have "i * b + b < length xs" by simp
  then show ?thesis by simp
qed

lemma chunk_nth:
  assumes "0 < b" and "k < length xs"
  shows "take b (drop (k div b * b) xs) ! (k mod b) = xs ! k"
proof -
  have "k div b * b + k mod b = k" by (rule div_mult_mod_eq)
  moreover have "k div b * b \<le> length xs" using assms(2) calculation by linarith
  ultimately show ?thesis using assms by (simp add: nth_drop)
qed

lemma concat_uniform_nth:
  assumes "0 < b"
    and "\<forall>i < length xss. length (xss ! i) \<le> b"
    and "\<forall>i. Suc i < length xss \<longrightarrow> length (xss ! i) = b"
    and "k < length (concat xss)"
  shows "concat xss ! k = xss ! (k div b) ! (k mod b)"
  using assms(2-)
proof (induction xss arbitrary: k)
  case Nil
  then show ?case by simp
next
  case (Cons x xss)
  show ?case
  proof (cases "k < length x")
    case True
    have "length x \<le> b" using Cons.prems(1) by force
    then have "k div b = 0" "k mod b = k" using True by simp_all
    then show ?thesis using True by (simp add: nth_append)
  next
    case False
    then have ne: "xss \<noteq> []" using Cons.prems(3) by auto
    then have len: "length x = b" using Cons.prems(2) by (cases xss) force+
    have 1: "\<forall>i<length xss. length (xss ! i) \<le> b" using Cons.prems(1) by force
    have 2: "\<forall>i. Suc i < length xss \<longrightarrow> length (xss ! i) = b"
      using Cons.prems(2) by force
    have 3: "k - b < length (concat xss)" using Cons.prems(3) False len by simp
    have kb: "b \<le> k" using False len by simp
    then have "k div b = Suc ((k - b) div b)" "k mod b = (k - b) mod b"
      using assms(1) by (simp_all add: le_div_geq le_mod_geq)
    then show ?thesis using Cons.IH [OF 1 2 3] False len by (simp add: nth_append)
  qed
qed

text \<open>
  C9. For a non-empty prompt list and a positive batch size (the tokenizer gives the pad
  token an id, which a tensor stores as \<open>padding\<close>, no \<open>generate\<close> call raises, and
  \<open>generate\<close> returns one row per row of its batch), \<open>call_model\<close> cuts the prompts in order into \<open>ceil (n / batch_size)\<close>
  consecutive non-empty batches of at most \<open>batch_size\<close> prompts, all but the last of them
  full, and returns one decoded answer per prompt in the order of the prompts: answer
  \<open>k\<close> is the decoded row \<open>k mod batch_size\<close> of the generation for batch
  \<open>k div batch_size\<close>, the row of prompt \<open>k\<close>.
\<close>

theorem call_model_batches:
  assumes "prompts \<noteq> []" and "0 < batch_size"
    and "tok env (pad_token env) = pad_id # rest"
    and "stored_padding pad_id = Inr padding"
    and "\<forall>i padded. \<not> raises env (Generate i padded max_length)"
    and "\<forall>i padded. length (generate env i padded) = length padded"
  shows "\<exists>batches answers events.
           prompt_batches [tok env prompt. prompt \<leftarrow> prompts] batch_size = Inr batches
         \<and> call_model env prompts batch_size max_length = (Inr answers, events)
         \<and> concat batches = [tok env prompt. prompt \<leftarrow> prompts]
         \<and> (int (length batches) - 1) * batch_size < int (length prompts)
         \<and> int (length prompts) \<le> int (length batches) * batch_size
         \<and> (\<forall>i < length batches.
               batches ! i \<noteq> [] \<and> int (length (batches ! i)) \<le> batch_size
             \<and> (Suc i < length batches \<longrightarrow> int (length (batches ! i)) = batch_size))
         \<and> length answers = length prompts
         \<and> (\<forall>k < length prompts.
               batches ! (k div nat batch_size) ! (k mod nat batch_size) = tok env (prompts ! k)
             \<and> answers ! k =
                 decode env (generate env (k div nat batch_size)
                               (left_padded padding (batches ! (k div nat batch_size)))
                             ! (k mod nat batch_size)))"
proof -
  define b where "b = nat batch_size"
  define xs where "xs = [tok env prompt. prompt \<leftarrow> prompts]"
  define m where "m = (length xs + b - 1) div b"
  define batches where "batches = [take b (drop (i * b) xs). i \<leftarrow> [0..<m]]"
  define outs where "outs = [batch_output env padding (0 + j) (batches ! j). j \<leftarrow> [0..<length batches]]"
  have b: "0 < b" "batch_size = int b" using assms(2) by (simp_all add: b_def)
  have n: "length xs = length prompts" "0 < length xs" using assms(1) by (simp_all add: xs_def)
  have lb: "length batches = m" by (simp add: batches_def)
  have bi: "batches ! i = take b (drop (i * b) xs)" if "i < m" for i
    using that by (simp add: batches_def)
  have pb: "prompt_batches xs batch_size = Inr batches"
    unfolding b(2) batches_def m_def using b(1) by (rule prompt_batches_pos)
  have ne: "\<forall>batch \<in> set batches. batch \<noteq> []"
    using chunk_nonempty [OF b(1), of _ xs] by (auto simp: batches_def m_def)
  have run: "call_model env prompts batch_size max_length =
      (Inr (concat outs),
       [Generate (0 + j) (left_padded padding (batches ! j)) max_length. j \<leftarrow> [0..<length batches]])"
    using call_model_loop_run [OF ne assms(3) assms(4) assms(5), of 0 "[]"] pb
    by (simp add: call_model_def and_then_lift xs_def [symmetric] outs_def)
  have cover: "length xs \<le> m * b" unfolding m_def using b(1) by (rule ceil_div_cover)
  have tight: "(m - 1) * b < length xs" unfolding m_def using b(1) n(2) by (rule ceil_div_tight)
  have m0: "0 < m" using cover n(2) by (cases m) simp_all
  have cc: "concat batches = xs" using cover by (simp add: batches_def concat_chunks)
  have olen: "length (outs ! i) = length (batches ! i)" if "i < m" for i
    using that assms(6) by (simp add: outs_def lb batch_output_def length_left_padded)
  have "map length outs = map length batches"
    using olen by (intro nth_equalityI) (simp_all add: outs_def lb)
  then have alen: "length (concat outs) = length xs"
    using cc by (metis length_concat)
  have sizes: "batches ! i \<noteq> [] \<and> length (batches ! i) \<le> b
             \<and> (Suc i < m \<longrightarrow> length (batches ! i) = b)" if "i < m" for i
  proof -
    have "take b (drop (i * b) xs) \<noteq> []"
      using b(1) that unfolding m_def by (rule chunk_nonempty)
    moreover have "length (take b (drop (i * b) xs)) = b" if "Suc i < m"
      using b(1) that unfolding m_def by (rule chunk_length)
    moreover have "length (take b (drop (i * b) xs)) \<le> b" by simp
    ultimately show ?thesis using that by (simp only: bi) blast
  qed
  have kth: "batches ! (k div b) ! (k mod b) = xs ! k \<and> k div b < m
           \<and> k mod b < length (batches ! (k div b))" if "k < length xs" for k
  proof -
    have "k div b * b + k mod b = k" by (rule div_mult_mod_eq)
    have "k div b < m"
    proof (rule ccontr)
      assume "\<not> k div b < m"
      then have "m * b \<le> k div b * b" by (intro mult_le_mono1) simp
      then show False using cover that \<open>k div b * b + k mod b = k\<close> by linarith
    qed
    moreover have "k mod b < length xs - k div b * b"
      using that \<open>k div b * b + k mod b = k\<close> by linarith
    then have "k mod b < length (take b (drop (k div b * b) xs))"
      using b(1) by simp
    ultimately show ?thesis using chunk_nth [OF b(1) that] by (simp add: bi)
  qed
  have ans: "concat outs ! k =
      decode env (generate env (k div b) (left_padded padding (batches ! (k div b))) ! (k mod b))"
    if "k < length xs" for k
  proof -
    have 1: "\<forall>i < length outs. length (outs ! i) \<le> b"
      using sizes olen by (simp add: outs_def lb)
    have 2: "\<forall>i. Suc i < length outs \<longrightarrow> length (outs ! i) = b"
      using sizes olen by (simp add: outs_def lb)
    have "concat outs ! k = outs ! (k div b) ! (k mod b)"
      using b(1) 1 2 that alen by (intro concat_uniform_nth) simp_all
    also have "outs ! (k div b) = batch_output env padding (k div b) (batches ! (k div b))"
      using kth [OF that] by (simp add: outs_def lb)
    also have "\<dots> ! (k mod b) =
      decode env (generate env (k div b) (left_padded padding (batches ! (k div b))) ! (k mod b))"
      using kth [OF that] assms(6) by (simp add: batch_output_def length_left_padded)
    finally show ?thesis .
  qed
  have c1: "(int (length batches) - 1) * batch_size < int (length prompts)"
  proof -
    have "int ((m - 1) * b) < int (length xs)" using tight by (simp only: of_nat_less_iff)
    then show ?thesis using m0 by (simp add: lb b(2) n(1) of_nat_diff)
  qed
  have c2: "int (length prompts) \<le> int (length batches) * batch_size"
  proof -
    have "int (length xs) \<le> int (m * b)" using cover by (simp only: of_nat_le_iff)
    then show ?thesis by (simp add: lb b(2) n(1))
  qed
  have c3: "\<forall>i < length batches.
               batches ! i \<noteq> [] \<and> int (length (batches ! i)) \<le> batch_size
             \<and> (Suc i < length batches \<longrightarrow> int (length (batches ! i)) = batch_size)"
    using sizes by (simp add: lb b(2))
  have c4: "\<forall>k < length prompts.
               batches ! (k div nat batch_size) ! (k mod nat batch_size) = tok env (prompts ! k)
             \<and> concat outs ! k =
                 decode env (generate env (k div nat batch_size)
                               (left_padded padding (batches ! (k div nat batch_size)))
                             ! (k mod nat batch_size))"
    using kth ans by (simp add: b_def [symmetric] n(1) [symmetric]) (simp add: xs_def)
  show ?thesis
    using pb run cc c1 c2 c3 c4 alen unfolding xs_def [symmetric] n(1) [symmetric]
    by blast
qed

section \<open>The data collator and the evaluation callback\<close>

subsection \<open>The collator\<close>

lemma stack_same_length:
  assumes "tensors \<noteq> []" and "\<forall>t \<in> set tensors. length t = n"
  shows "stack tensors = Inr tensors"
  using assms by (cases tensors) (simp_all add: stack_def list_all_iff)

text \<open>
  C4. For every batch of examples (at least one) whose input ids, attention masks and
  labels all have the length \<open>n\<close>, the collator returns the mapping with the keys
  \<open>input_ids\<close>, \<open>attention_mask\<close> and \<open>labels\<close>, each a stacked tensor with one row per
  example and \<open>n\<close> columns, whose row \<open>i\<close> is the corresponding component of example \<open>i\<close>.
\<close>

theorem data_collator_stacks:
  assumes "batch \<noteq> []"
    and "\<forall>f \<in> set batch.
           length (fst f) = n \<and> length (fst (snd f)) = n \<and> length (snd (snd f)) = n"
  shows "\<exists>input_ids attention_mask labels.
           data_collator batch =
             Inr [(''input_ids'', input_ids), (''attention_mask'', attention_mask),
                  (''labels'', labels)]
         \<and> length input_ids = length batch
         \<and> length attention_mask = length batch
         \<and> length labels = length batch
         \<and> (\<forall>i < length batch.
               input_ids ! i = fst (batch ! i) \<and> length (input_ids ! i) = n
             \<and> attention_mask ! i = fst (snd (batch ! i)) \<and> length (attention_mask ! i) = n
             \<and> labels ! i = snd (snd (batch ! i)) \<and> length (labels ! i) = n)"
proof -
  have 1: "stack [fst f. f \<leftarrow> batch] = Inr [fst f. f \<leftarrow> batch]"
    using assms by (intro stack_same_length [where n = n]) simp_all
  have 2: "stack [fst (snd f). f \<leftarrow> batch] = Inr [fst (snd f). f \<leftarrow> batch]"
    using assms by (intro stack_same_length [where n = n]) simp_all
  have 3: "stack [snd (snd f). f \<leftarrow> batch] = Inr [snd (snd f). f \<leftarrow> batch]"
    using assms by (intro stack_same_length [where n = n]) simp_all
  show ?thesis using assms(2) by (simp add: data_collator_def 1 2 3)
qed

lemma data_collator_empty: "data_collator [] = Inl LibraryError"
  by (simp add: data_collator_def stack_def)

subsection \<open>The evaluation callback\<close>

lemma call_model_loop_events:
  "ev \<in> set (snd (call_model_loop env max_length i answers batches)) \<Longrightarrow>
     \<exists>j padded. ev = Generate j padded max_length"
  by (induction batches arbitrary: i answers)
     (auto simp: events_simps Let_def)

lemma call_model_events:
  "ev \<in> set (snd (call_model env prompts batch_size max_length)) \<Longrightarrow>
     \<exists>j padded. ev = Generate j padded max_length"
  by (auto simp: call_model_def events_simps Let_def dest: call_model_loop_events)


section \<open>train and the script\<close>

lemma getitem_setitem:
  "getitem (setitem d k v) k' = (if k' = k then Inr v else getitem d k')"
  by (simp add: getitem_def setitem_def update_conv')

lemma as_dict_Inr: "as_dict v = Inr d \<longleftrightarrow> v = YDict d"
  by (cases v) (simp_all add: as_dict_def)

text \<open>What a completed run of lines 53 to 69 has established.\<close>

lemma train_load_Inr:
  assumes "fst (train_load env config) = Inr st"
  shows "st_config st = setitem (setitem config ''eval_accumulation_steps'' (YInt 2))
                          ''fp16_full_eval'' (YBool True)"
    and "getitem config ''train_args'' = Inr (YDict (st_training_args st))"
    and "split_dataset (train_split env) = Inr (st_eval_data st, st_data st)"
  using assms
  by (auto simp: train_load_def Let_def fst_and_then fst_lift fst_call fst_return
      getitem_setitem as_dict_Inr library_Inr split: sum.splits if_splits prod.splits)

lemma train_load_events:
  assumes "ev \<in> set (snd (train_load env config))"
  shows "(\<exists>v. ev = TokenizerFromPretrained v \<or> ev = ModelFromPretrained v \<or> ev = LoadDataset v)
       \<or> ev = ModelCuda \<or> (\<exists>n. ev = Print n)
       \<or> (\<exists>kwargs. ev = TrainingArgumentsNew kwargs
             \<and> getitem config ''train_args'' = Inr (YDict kwargs))
       \<or> (\<exists>c. ev = WandbInit ''tclx'' c \<and> get_rank env = Some 0)"
  using assms
  by (auto simp: train_load_def Let_def events_simps getitem_setitem as_dict_Inr library_Inr
      split: if_splits prod.splits)

lemma train_fit_events:
  assumes "ev \<in> set (snd (train_fit env st))"
  shows "(\<exists>k rows. ev = DatasetNew k rows) \<or> (\<exists>a k d e. ev = TrainerNew a k d e)
       \<or> ev = TrainerTrain \<or> (\<exists>d. ev = SavePretrained d)"
  using assms by (auto simp: train_fit_def events_simps split: if_splits)

lemma train_events:
  "ev \<in> set (snd (train env config)) \<longleftrightarrow>
     ev \<in> set (snd (train_load env config))
   \<or> (\<exists>st. fst (train_load env config) = Inr st \<and> ev \<in> set (snd (train_fit env st)))"
  by (simp add: train_def events_and_then)

lemma train_wandb:
  assumes "ev \<in> set (snd (train env config))" and "is_wandb ev"
  shows "get_rank env = Some 0"
  using assms by (auto simp: train_events dest!: train_load_events train_fit_events)

lemma on_evaluate_wandb:
  assumes "ev \<in> set (snd (on_evaluate env dataset_prompts))" and "is_wandb ev"
  shows "get_rank env = Some 0"
  using assms
  by (auto simp: on_evaluate_def events_simps Let_def library_Inr split: if_splits
      dest!: call_model_events)

lemma main_events:
  assumes "ev \<in> set (snd (main env args))"
  shows "\<exists>config d. load_yaml env (config_path args) = Some config
           \<and> getitem config ''train_args'' = Inr (YDict d)
           \<and> ev \<in> set (snd (train env
                (setitem config ''train_args''
                   (YDict (setitem d ''deepspeed'' (of_optional (ds_config_path args)))))))"
  using assms by (auto simp: main_def events_simps as_dict_Inr library_Inr)

text \<open>
  C7. On a process whose distributed rank is not 0 (or is not available), no
  experiment-tracking call is executed: neither \<open>wandb.init\<close> in \<open>train\<close> (also when
  called from the script) nor \<open>wandb.log\<close> in \<open>on_evaluate\<close>.
\<close>

theorem wandb_only_on_rank_zero:
  assumes "get_rank env \<noteq> Some 0"
  shows "(\<forall>ev \<in> set (snd (train env config)). \<not> is_wandb ev)
       \<and> (\<forall>ev \<in> set (snd (main env args)). \<not> is_wandb ev)
       \<and> (\<forall>ev \<in> set (snd (on_evaluate env dataset_prompts)). \<not> is_wandb ev)"
  using assms train_wandb on_evaluate_wandb main_events by blast

lemma call_eq_iff:
  "call env ev = (r, events) \<longleftrightarrow>
     (raises env ev \<and> r = Inl LibraryError \<and> events = [])
   \<or> (\<not> raises env ev \<and> r = Inr () \<and> events = [ev])"
  by (auto simp: call_def)

lemma return_eq_iff: "return x = (r, events) \<longleftrightarrow> r = Inr x \<and> events = []"
  by (auto simp: return_def)

lemma raise_eq_iff: "raise e = (r, events) \<longleftrightarrow> r = Inl e \<and> events = []"
  by (auto simp: raise_def)

lemma as_dict_YDict: "as_dict (YDict d) = Inr d"
  by (simp add: as_dict_def)

lemmas run_eq_iffs = call_eq_iff return_eq_iff raise_eq_iff

lemma train_fit_save:
  assumes "SavePretrained d \<in> set (snd (train_fit env st))"
  shows "\<exists>kind train_args.
           train_fit env st =
             (Inr (), [DatasetNew kind (st_data st), DatasetNew kind (st_eval_data st),
                       TrainerNew (st_training_args st) kind (st_data st) (st_eval_data st),
                       TrainerTrain, SavePretrained d])
         \<and> \<not> raises env TrainerTrain
         \<and> getitem (st_config st) ''train_args'' = Inr (YDict train_args)
         \<and> getitem train_args ''output_dir'' = Inr d"
  using assms
  by (auto simp: train_fit_def run_simps run_eq_iffs as_dict_Inr as_dict_YDict
      split: if_splits sum.splits prod.splits)

lemma train_load_no_save:
  "SavePretrained d \<notin> set (snd (train_load env config))"
  "TrainerTrain \<notin> set (snd (train_load env config))"
  "TrainerNew a k rows rows' \<notin> set (snd (train_load env config))"
  "DatasetNew k rows \<notin> set (snd (train_load env config))"
  using train_load_events [of _ env config] by blast+

text \<open>
  C8. In every run of \<open>train\<close>, if the model is saved to \<open>d\<close>, then the training loop has
  returned before, as the call just before the save, nothing was saved earlier, and \<open>d\<close>
  is \<open>config["train_args"]["output_dir"]\<close>. So nothing is saved when the training loop
  raises.
\<close>

theorem save_only_after_training:
  "SavePretrained d \<in> set (snd (train env config)) \<longrightarrow>
     (\<exists>before train_args.
         train env config = (Inr (), before @ [TrainerTrain, SavePretrained d])
       \<and> TrainerTrain \<notin> set before
       \<and> (\<forall>d'. SavePretrained d' \<notin> set before)
       \<and> \<not> raises env TrainerTrain
       \<and> getitem config ''train_args'' = Inr (YDict train_args)
       \<and> getitem train_args ''output_dir'' = Inr d)"
proof
  assume "SavePretrained d \<in> set (snd (train env config))"
  then obtain st where st: "fst (train_load env config) = Inr st"
    and fit: "SavePretrained d \<in> set (snd (train_fit env st))"
    using train_load_no_save(1) by (auto simp: train_events)
  obtain kind train_args where run: "train_fit env st =
             (Inr (), [DatasetNew kind (st_data st), DatasetNew kind (st_eval_data st),
                       TrainerNew (st_training_args st) kind (st_data st) (st_eval_data st),
                       TrainerTrain, SavePretrained d])"
    and ok: "\<not> raises env TrainerTrain"
    and ta: "getitem (st_config st) ''train_args'' = Inr (YDict train_args)"
    and out: "getitem train_args ''output_dir'' = Inr d"
    using train_fit_save [OF fit] by blast
  obtain events where load: "train_load env config = (Inr st, events)"
    using st by (cases "train_load env config") simp
  define before where "before = events
     @ [DatasetNew kind (st_data st), DatasetNew kind (st_eval_data st),
        TrainerNew (st_training_args st) kind (st_data st) (st_eval_data st)]"
  have "train env config = (Inr (), before @ [TrainerTrain, SavePretrained d])"
    by (simp add: train_def before_def and_then_def run load)
  moreover have "SavePretrained d' \<notin> set events" for d'
    using train_load_no_save(1) [of d' env config] by (simp add: load)
  moreover have "TrainerTrain \<notin> set events"
    using train_load_no_save(2) [of env config] by (simp add: load)
  ultimately have "train env config = (Inr (), before @ [TrainerTrain, SavePretrained d])"
    "TrainerTrain \<notin> set before" "\<forall>d'. SavePretrained d' \<notin> set before"
    by (auto simp: before_def)
  moreover have "getitem config ''train_args'' = Inr (YDict train_args)"
    using ta train_load_Inr(1) [OF st] by (simp add: getitem_setitem)
  ultimately show "\<exists>before train_args.
         train env config = (Inr (), before @ [TrainerTrain, SavePretrained d])
       \<and> TrainerTrain \<notin> set before
       \<and> (\<forall>d'. SavePretrained d' \<notin> set before)
       \<and> \<not> raises env TrainerTrain
       \<and> getitem config ''train_args'' = Inr (YDict train_args)
       \<and> getitem train_args ''output_dir'' = Inr d"
    using ok out by blast
qed

lemma train_load_trainer:
  assumes "fst (train_load env config) = Inr st"
  shows "getitem (st_config st) ''trainer'' = getitem config ''trainer''"
  using train_load_Inr(1) [OF assms] by (simp add: getitem_setitem)

lemma train_fit_unsupported:
  assumes "getitem (st_config st) ''trainer'' = Inr v"
    and "v \<noteq> YStr ''unmasked''" and "v \<noteq> YStr ''masked''"
  shows "train_fit env st = (Inl (ValueError v), [])"
  using assms by (simp add: train_fit_def run_simps)

lemma fst_and_then_Inl:
  "fst (and_then m f) = Inl e \<longleftrightarrow>
     fst m = Inl e \<or> (\<exists>x. fst m = Inr x \<and> fst (f x) = Inl e)"
  by (auto simp: fst_and_then split: sum.splits)

lemma getitem_Inl: "getitem d k = Inl e \<Longrightarrow> e = KeyError k"
  by (auto simp: getitem_def split: option.splits)

lemma as_dict_Inl: "as_dict v = Inl e \<Longrightarrow> e = TypeError"
  by (cases v) (auto simp: as_dict_def)

lemma train_fit_supported_eq:
  assumes "getitem (st_config st) ''trainer'' = Inr v"
    and "v = YStr ''unmasked'' \<and> kind = SFTDataset
       \<or> v = YStr ''masked'' \<and> kind = MaskedSFTDataset"
  shows "train_fit env st = fit_with env st kind"
  using assms
  by (auto simp: train_fit_def fit_with_def run_simps run_eq_iffs split: prod.splits)

lemma fit_with_error: "fst (fit_with env st kind) \<noteq> Inl (ValueError w)"
  by (auto simp: fit_with_def fst_and_then_Inl fst_lift fst_call
      dest: getitem_Inl as_dict_Inl split: if_splits)

lemma fit_with_dataset:
  "DatasetNew k rows \<in> set (snd (fit_with env st kind)) \<Longrightarrow> k = kind"
  by (auto simp: fit_with_def events_simps)

lemma fit_with_trainer:
  "TrainerNew a k rows rows' \<in> set (snd (fit_with env st kind)) \<Longrightarrow>
     k = kind \<and> rows = st_data st \<and> rows' = st_eval_data st
   \<and> DatasetNew kind rows \<in> set (snd (fit_with env st kind))
   \<and> DatasetNew kind rows' \<in> set (snd (fit_with env st kind))"
  by (auto simp: fit_with_def events_simps split: if_splits)

lemma fit_with_first:
  "\<not> raises env (DatasetNew kind (st_data st)) \<Longrightarrow>
     DatasetNew kind (st_data st) \<in> set (snd (fit_with env st kind))"
  by (simp add: fit_with_def events_simps)

lemma split_dataset_Inl:
  "split_dataset rows = Inl e \<Longrightarrow> e = OverflowError \<or> e = IndexError"
  by (auto simp: split_dataset_def eval_size_def float_of_len_def select_def
      split: sum.splits if_splits)

lemma train_load_value_error: "fst (train_load env config) \<noteq> Inl (ValueError w)"
  by (auto simp: train_load_def Let_def fst_and_then_Inl fst_lift fst_call fst_return
      library_Inl split: if_splits prod.splits
      dest: split_dataset_Inl getitem_Inl as_dict_Inl)

lemma train_selects:
  assumes "getitem config ''trainer'' = Inr v"
    and "v = YStr ''unmasked'' \<and> kind = SFTDataset
       \<or> v = YStr ''masked'' \<and> kind = MaskedSFTDataset"
  shows "selects env config kind"
proof -
  have fit: "train_fit env st = fit_with env st kind"
    if "fst (train_load env config) = Inr st" for st
    using train_load_trainer [OF that] assms by (intro train_fit_supported_eq) auto
  have ev: "ev \<in> set (snd (train env config)) \<longleftrightarrow>
     ev \<in> set (snd (train_load env config))
   \<or> (\<exists>st. fst (train_load env config) = Inr st \<and> ev \<in> set (snd (fit_with env st kind)))"
    for ev
    using fit by (auto simp: train_events)
  have 1: "fst (train env config) \<noteq> Inl (ValueError w)" for w
    using fit train_load_value_error [of env config w] fit_with_error [of env _ kind w]
    by (auto simp: train_def fst_and_then_Inl)
  have 2: "k = kind" if "DatasetNew k rows \<in> set (snd (train env config))" for k rows
    using that train_load_no_save(4) [of k rows env config]
    by (auto simp: ev dest: fit_with_dataset)
  have 3: "k = kind \<and> DatasetNew kind rows \<in> set (snd (train env config))
        \<and> DatasetNew kind rows' \<in> set (snd (train env config))"
    if "TrainerNew a k rows rows' \<in> set (snd (train env config))" for a k rows rows'
    using that train_load_no_save(3) [of a k rows rows' env config]
    by (auto simp: ev dest: fit_with_trainer)
  have 4: "DatasetNew kind (st_data st) \<in> set (snd (train env config))"
    if "train_load env config = (Inr st, events)"
      and "\<not> raises env (DatasetNew kind (st_data st))" for st events
    using that fit_with_first [of env kind st] by (auto simp: ev)
  show ?thesis unfolding selects_def using 1 2 3 4 by blast
qed

text \<open>
  C2. Let \<open>v\<close> be the value of the configuration key \<open>trainer\<close>. If \<open>v\<close> is neither
  \<open>"unmasked"\<close> nor \<open>"masked"\<close>, \<open>train\<close> ends with an error and never constructs the
  trainer, and whenever lines 53 to 69 complete the error is the ValueError of line 78,
  raised with no further library call. If \<open>v\<close> is \<open>"unmasked"\<close> (\<open>"masked"\<close>), that error
  is not raised and the adapter SFTDataset (MaskedSFTDataset) is selected.
\<close>

theorem trainer_validation:
  assumes "getitem config ''trainer'' = Inr v"
  shows "(v \<noteq> YStr ''unmasked'' \<and> v \<noteq> YStr ''masked'' \<longrightarrow>
            (\<exists>e. fst (train env config) = Inl e)
          \<and> (\<forall>a k rows rows'. TrainerNew a k rows rows' \<notin> set (snd (train env config)))
          \<and> (\<forall>st events. train_load env config = (Inr st, events) \<longrightarrow>
                train env config = (Inl (ValueError v), events)))
       \<and> (v = YStr ''unmasked'' \<longrightarrow> selects env config SFTDataset)
       \<and> (v = YStr ''masked'' \<longrightarrow> selects env config MaskedSFTDataset)"
proof (intro conjI impI)
  assume bad: "v \<noteq> YStr ''unmasked'' \<and> v \<noteq> YStr ''masked''"
  have fit: "train_fit env st = (Inl (ValueError v), [])"
    if "fst (train_load env config) = Inr st" for st
    using train_load_trainer [OF that] assms bad by (intro train_fit_unsupported) auto
  show "\<exists>e. fst (train env config) = Inl e"
    using fit by (cases "fst (train_load env config)") (auto simp: train_def fst_and_then)
  show "\<forall>a k rows rows'. TrainerNew a k rows rows' \<notin> set (snd (train env config))"
    using fit train_load_no_save(3) [of _ _ _ _ env config] by (auto simp: train_events)
  show "\<forall>st events. train_load env config = (Inr st, events) \<longrightarrow>
                train env config = (Inl (ValueError v), events)"
    using fit by (auto simp: train_def and_then_def)
next
  assume "v = YStr ''unmasked''"
  then show "selects env config SFTDataset" using assms by (intro train_selects) auto
next
  assume "v = YStr ''masked''"
  then show "selects env config MaskedSFTDataset" using assms by (intro train_selects) auto
qed

lemma train_kwargs:
  assumes "TrainingArgumentsNew kwargs \<in> set (snd (train env config))"
  shows "getitem config ''train_args'' = Inr (YDict kwargs)"
  using assms by (auto simp: train_events dest!: train_load_events train_fit_events)

lemma map_of_setitem: "map_of (setitem d k v) = (map_of d)(k \<mapsto> v)"
  by (simp add: setitem_def update_conv')

text \<open>
  C6 (as amended). The keyword arguments the script passes to \<open>TrainingArguments\<close> are the
  \<open>train_args\<close> mapping of the YAML configuration with the key \<open>deepspeed\<close> set to the
  value of \<open>--ds_config_path\<close> (\<open>None\<close> when the flag is absent): every other key and its
  value come unchanged from the YAML \<open>train_args\<close>, and no other key is added or changed.
\<close>

theorem training_arguments_from_yaml:
  "TrainingArgumentsNew kwargs \<in> set (snd (main env args)) \<longrightarrow>
     (\<exists>config train_args.
         load_yaml env (config_path args) = Some config
       \<and> getitem config ''train_args'' = Inr (YDict train_args)
       \<and> kwargs = setitem train_args ''deepspeed'' (of_optional (ds_config_path args))
       \<and> map_of kwargs ''deepspeed'' = Some (of_optional (ds_config_path args))
       \<and> (\<forall>k. k \<noteq> ''deepspeed'' \<longrightarrow> map_of kwargs k = map_of train_args k))"
proof
  assume "TrainingArgumentsNew kwargs \<in> set (snd (main env args))"
  then obtain config d where c: "load_yaml env (config_path args) = Some config"
    "getitem config ''train_args'' = Inr (YDict d)"
    "TrainingArgumentsNew kwargs \<in> set (snd (train env
                (setitem config ''train_args''
                   (YDict (setitem d ''deepspeed'' (of_optional (ds_config_path args)))))))"
    using main_events by blast
  have "kwargs = setitem d ''deepspeed'' (of_optional (ds_config_path args))"
    using train_kwargs [OF c(3)] by (simp add: getitem_setitem)
  then show "\<exists>config train_args.
         load_yaml env (config_path args) = Some config
       \<and> getitem config ''train_args'' = Inr (YDict train_args)
       \<and> kwargs = setitem train_args ''deepspeed'' (of_optional (ds_config_path args))
       \<and> map_of kwargs ''deepspeed'' = Some (of_optional (ds_config_path args))
       \<and> (\<forall>k. k \<noteq> ''deepspeed'' \<longrightarrow> map_of kwargs k = map_of train_args k)"
    using c(1,2) by (auto simp: map_of_setitem)
qed

section \<open>Concrete runs\<close>

lemma split_demo:
  "split_dataset [''row0'', ''row1'', ''row2''] = Inr ([], [''row0'', ''row1'', ''row2''])"
  by (simp add: split_dataset_eq [where es = 0] eval_size_exact)

lemmas demo_simps = demo_env_def demo_config_def demo_args_def run_simps getitem_def
  setitem_def as_dict_def library_def of_optional_def split_demo Let_def return_def raise_def
  call_def lift_def

lemma demo_train_load:
  "train_load demo_env demo_config =
     (Inr \<lparr>st_config = demo_config @ [(''eval_accumulation_steps'', YInt 2),
                                      (''fp16_full_eval'', YBool True)],
           st_training_args = [(''output_dir'', YStr ''out'')],
           st_eval_data = [],
           st_data = [''row0'', ''row1'', ''row2'']\<rparr>,
      [TokenizerFromPretrained (YStr ''gpt2''),
       TrainingArgumentsNew [(''output_dir'', YStr ''out'')],
       ModelFromPretrained (YStr ''gpt2''),
       ModelCuda,
       LoadDataset (YStr ''data.json''),
       WandbInit ''tclx'' (demo_config @ [(''eval_accumulation_steps'', YInt 2),
                                         (''fp16_full_eval'', YBool True)]),
       Print 3])"
  by (simp add: train_load_def demo_simps)

lemma demo_train:
  "train demo_env demo_config =
     (Inr (),
      [TokenizerFromPretrained (YStr ''gpt2''),
       TrainingArgumentsNew [(''output_dir'', YStr ''out'')],
       ModelFromPretrained (YStr ''gpt2''),
       ModelCuda,
       LoadDataset (YStr ''data.json''),
       WandbInit ''tclx'' (demo_config @ [(''eval_accumulation_steps'', YInt 2),
                                         (''fp16_full_eval'', YBool True)]),
       Print 3,
       DatasetNew SFTDataset [''row0'', ''row1'', ''row2''],
       DatasetNew SFTDataset [],
       TrainerNew [(''output_dir'', YStr ''out'')] SFTDataset [''row0'', ''row1'', ''row2''] [],
       TrainerTrain,
       SavePretrained (YStr ''out'')])"
  by (simp add: train_def demo_train_load train_fit_def and_then_Inr)
     (simp add: demo_simps)

lemma demo_main:
  "main demo_env demo_args =
     (Inr (),
      [TokenizerFromPretrained (YStr ''gpt2''),
       TrainingArgumentsNew [(''output_dir'', YStr ''out''),
                             (''deepspeed'', YStr ''ds_config.json'')],
       ModelFromPretrained (YStr ''gpt2''),
       ModelCuda,
       LoadDataset (YStr ''data.json''),
       WandbInit ''tclx''
         [(''tokenizer_path'', YStr ''gpt2''),
          (''model_path'', YStr ''gpt2''),
          (''data_path'', YStr ''data.json''),
          (''trainer'', YStr ''unmasked''),
          (''train_args'', YDict [(''output_dir'', YStr ''out''),
                                  (''deepspeed'', YStr ''ds_config.json'')]),
          (''eval_accumulation_steps'', YInt 2),
          (''fp16_full_eval'', YBool True)],
       Print 3,
       DatasetNew SFTDataset [''row0'', ''row1'', ''row2''],
       DatasetNew SFTDataset [],
       TrainerNew [(''output_dir'', YStr ''out''), (''deepspeed'', YStr ''ds_config.json'')]
         SFTDataset [''row0'', ''row1'', ''row2''] [],
       TrainerTrain,
       SavePretrained (YStr ''out'')])"
  by (simp add: main_def train_def train_load_def train_fit_def demo_simps)

lemma stored_padding_35: "stored_padding 35 = Inr 35"
  by (rule stored_padding_exact) simp


lemma upt_0_2: "[0..<2] = [0, Suc 0]"
  by (simp add: numeral_2_eq_2)



theorem call_model_batches_witness:
  "[''hi'', ''a'', ''yo''] \<noteq> [] \<and> (0::int) < 2
   \<and> tok demo_env (pad_token demo_env) = [35]
   \<and> stored_padding 35 = Inr 35
   \<and> call_model demo_env [''hi'', ''a'', ''yo''] 2 500 =
       (Inr [''hi!'', ''#a!'', ''yo!''],
        [Generate 0 [[104, 105], [35, 97]] 500, Generate 1 [[121, 111]] 500])
   \<and> (\<exists>batches answers events.
         prompt_batches [tok demo_env prompt. prompt \<leftarrow> [''hi'', ''a'', ''yo'']] 2 = Inr batches
       \<and> call_model demo_env [''hi'', ''a'', ''yo''] 2 500 = (Inr answers, events)
       \<and> concat batches = [tok demo_env prompt. prompt \<leftarrow> [''hi'', ''a'', ''yo'']]
       \<and> length answers = length [''hi'', ''a'', ''yo''])"
proof -
  define prompts where "prompts = [''hi'', ''a'', ''yo'']"
  have pad: "tok demo_env (pad_token demo_env) = [35]" by (simp add: demo_env_def)
  have ok: "\<forall>i padded. \<not> raises demo_env (Generate i padded 500)"
    "\<forall>i padded. length (generate demo_env i padded) = length padded"
    by (simp_all add: demo_env_def)
  have run: "call_model demo_env prompts 2 500 =
       (Inr [''hi!'', ''#a!'', ''yo!''],
        [Generate 0 [[104, 105], [35, 97]] 500, Generate 1 [[121, 111]] 500])"
    by (simp add: prompts_def call_model_def prompt_batches_def py_slice_def slice_index_def
        left_pad_def first_id_def pad_sequence_def stored_padding_35 max_len_def flip_def
        demo_simps char_of_def upt_0_2)
  have ne: "prompts \<noteq> []" and pos: "(0::int) < 2" by (simp_all add: prompts_def)
  have "\<exists>batches answers events.
         prompt_batches [tok demo_env prompt. prompt \<leftarrow> prompts] 2 = Inr batches
       \<and> call_model demo_env prompts 2 500 = (Inr answers, events)
       \<and> concat batches = [tok demo_env prompt. prompt \<leftarrow> prompts]
       \<and> length answers = length prompts"
    using call_model_batches [OF ne pos pad stored_padding_35 ok] by blast
  then show ?thesis using ne pos pad stored_padding_35 run unfolding prompts_def
    by (intro conjI)
qed


theorem data_collator_stacks_witness:
  "[([1, 2], [1, 1], [1, 2]), ([3, 4], [1, 0], [3, -100])] \<noteq> ([] :: example list)
   \<and> data_collator [([1, 2], [1, 1], [1, 2]), ([3, 4], [1, 0], [3, -100])] =
       Inr [(''input_ids'', [[1, 2], [3, 4]]),
            (''attention_mask'', [[1, 1], [1, 0]]),
            (''labels'', [[1, 2], [3, -100]])]"
  using data_collator_stacks [of "[([1, 2], [1, 1], [1, 2]), ([3, 4], [1, 0], [3, -100])]" 2]
  by (simp add: data_collator_def stack_def)

theorem wandb_only_on_rank_zero_witness:
  "get_rank (demo_env\<lparr>get_rank := Some 1\<rparr>) \<noteq> Some 0
   \<and> \<not> list_ex is_wandb (snd (train (demo_env\<lparr>get_rank := Some 1\<rparr>) demo_config))
   \<and> \<not> list_ex is_wandb (snd (main (demo_env\<lparr>get_rank := Some 1\<rparr>) demo_args))
   \<and> \<not> list_ex is_wandb (snd (on_evaluate (demo_env\<lparr>get_rank := Some 1\<rparr>) [''hi'', ''a'']))"
proof -
  have "get_rank (demo_env\<lparr>get_rank := Some 1\<rparr>) \<noteq> Some 0" by simp
  from wandb_only_on_rank_zero [OF this] this show ?thesis
    by (simp add: list_ex_iff)
qed

theorem save_only_after_training_witness:
  "SavePretrained (YStr ''out'') \<in> set (snd (train demo_env demo_config))
   \<and> \<not> raises demo_env TrainerTrain
   \<and> (\<exists>before. train demo_env demo_config
                  = (Inr (), before @ [TrainerTrain, SavePretrained (YStr ''out'')]))"
proof -
  have "SavePretrained (YStr ''out'') \<in> set (snd (train demo_env demo_config))"
    by (simp add: demo_train)
  then show ?thesis
    using save_only_after_training [of "YStr ''out''" demo_env demo_config] by blast
qed

theorem trainer_validation_witness:
  "getitem (setitem demo_config ''trainer'' (YStr ''ppo'')) ''trainer'' = Inr (YStr ''ppo'')
   \<and> fst (train demo_env (setitem demo_config ''trainer'' (YStr ''ppo'')))
       = Inl (ValueError (YStr ''ppo''))
   \<and> getitem demo_config ''trainer'' = Inr (YStr ''unmasked'')
   \<and> DatasetNew SFTDataset [''row0'', ''row1'', ''row2'']
       \<in> set (snd (train demo_env demo_config))
   \<and> getitem (setitem demo_config ''trainer'' (YStr ''masked'')) ''trainer''
       = Inr (YStr ''masked'')
   \<and> DatasetNew MaskedSFTDataset [''row0'', ''row1'', ''row2'']
       \<in> set (snd (train demo_env (setitem demo_config ''trainer'' (YStr ''masked''))))"
proof -
  let ?ppo = "setitem demo_config ''trainer'' (YStr ''ppo'')"
  let ?masked = "setitem demo_config ''trainer'' (YStr ''masked'')"
  have 1: "getitem ?ppo ''trainer'' = Inr (YStr ''ppo'')" by (simp add: getitem_setitem)
  have 2: "getitem demo_config ''trainer'' = Inr (YStr ''unmasked'')"
    by (simp add: getitem_def demo_config_def)
  have 3: "getitem ?masked ''trainer'' = Inr (YStr ''masked'')" by (simp add: getitem_setitem)
  have "\<exists>st events. train_load demo_env ?ppo = (Inr st, events)"
    by (simp add: train_load_def demo_simps)
  then have a: "fst (train demo_env ?ppo) = Inl (ValueError (YStr ''ppo''))"
    using trainer_validation [OF 1, of demo_env] by auto
  have no: "\<not> raises demo_env ev" for ev by (simp add: demo_env_def)
  have "\<exists>cfg. train_load demo_env demo_config
      = (Inr \<lparr>st_config = cfg, st_training_args = [(''output_dir'', YStr ''out'')],
           st_eval_data = [], st_data = [''row0'', ''row1'', ''row2'']\<rparr>,
         snd (train_load demo_env demo_config))"
    by (simp add: train_load_def demo_simps)
  then have b: "DatasetNew SFTDataset [''row0'', ''row1'', ''row2'']
       \<in> set (snd (train demo_env demo_config))"
    using trainer_validation [OF 2, of demo_env] no unfolding selects_def
    by (metis loaded.select_convs(4))
  have "\<exists>cfg. train_load demo_env ?masked
      = (Inr \<lparr>st_config = cfg, st_training_args = [(''output_dir'', YStr ''out'')],
           st_eval_data = [], st_data = [''row0'', ''row1'', ''row2'']\<rparr>,
         snd (train_load demo_env ?masked))"
    by (simp add: train_load_def demo_simps)
  then have c: "DatasetNew MaskedSFTDataset [''row0'', ''row1'', ''row2'']
       \<in> set (snd (train demo_env ?masked))"
    using trainer_validation [OF 3, of demo_env] no unfolding selects_def
    by (metis loaded.select_convs(4))
  show ?thesis using 1 2 3 a b c by blast
qed

theorem training_arguments_from_yaml_witness:
  "TrainingArgumentsNew [(''output_dir'', YStr ''out''), (''deepspeed'', YStr ''ds_config.json'')]
     \<in> set (snd (main demo_env demo_args))
   \<and> (\<exists>config train_args.
         load_yaml demo_env (config_path demo_args) = Some config
       \<and> getitem config ''train_args'' = Inr (YDict train_args)
       \<and> [(''output_dir'', YStr ''out''), (''deepspeed'', YStr ''ds_config.json'')]
           = setitem train_args ''deepspeed'' (of_optional (ds_config_path demo_args)))"
proof -
  have "TrainingArgumentsNew [(''output_dir'', YStr ''out''),
                              (''deepspeed'', YStr ''ds_config.json'')]
     \<in> set (snd (main demo_env demo_args))"
    by (simp add: demo_main)
  then show ?thesis
    using training_arguments_from_yaml
      [of "[(''output_dir'', YStr ''out''), (''deepspeed'', YStr ''ds_config.json'')]"
          demo_env demo_args]
    by blast
qed

text \<open>
  The claim as stated fails: with \<open>--ds_config_path ds_config.json\<close> the arguments hold
  the key \<open>deepspeed\<close>, which the YAML \<open>train_args\<close> does not have (line 105).
\<close>

theorem training_arguments_counterexample:
  "load_yaml demo_env (config_path demo_args) = Some demo_config
   \<and> getitem demo_config ''train_args'' = Inr (YDict [(''output_dir'', YStr ''out'')])
   \<and> TrainingArgumentsNew [(''output_dir'', YStr ''out''),
                            (''deepspeed'', YStr ''ds_config.json'')]
       \<in> set (snd (main demo_env demo_args))"
  by (simp add: demo_main) (simp add: demo_env_def demo_config_def getitem_def)

end
